theory Spec2Isabelle
  imports Main "HOL-Library.Word"
begin

unbundle bit_operations_syntax

section \<open>Values, errors and expressions\<close>

text \<open>
  The handlers of \<^verbatim>\<open>app/routes/user_routes.js\<close> read untyped values out of a parsed
  request body and test them with \<^verbatim>\<open>!\<close>, \<^verbatim>\<open>||\<close> and \<^verbatim>\<open>!==\<close>. A value is one of
  JavaScript's: a number is the bit pattern of its IEEE double, a \<^verbatim>\<open>Buffer\<close> is its bytes,
  an object is the list of its own properties.
\<close>

datatype jsval =
    Undefined
  | Null
  | Bool bool
  | Num "64 word"
  | Str string
  | Buf "8 word list"
  | Arr "jsval list"
  | Obj "(string \<times> jsval) list"

text \<open>
  The errors a handler hands to \<^verbatim>\<open>next\<close>: the two custom errors the file imports,
  the one \<^verbatim>\<open>handle404\<close> throws, the authentication middleware's refusal, the runtime's
  \<^verbatim>\<open>TypeError\<close> for a property access on \<^verbatim>\<open>undefined\<close> or \<^verbatim>\<open>null\<close>, and whatever the
  hashing library or the store rejects with.
\<close>

datatype error =
    BadParamsError
  | BadCredentialsError
  | DocumentNotFoundError
  | Unauthorized
  | TypeError
  | HashError string
  | StoreError string

definition is_zero :: "64 word \<Rightarrow> bool" where
  "is_zero w = (w AND 0x7FFFFFFFFFFFFFFF = 0)"

definition is_nan :: "64 word \<Rightarrow> bool" where
  "is_nan w = (w AND 0x7FF0000000000000 = 0x7FF0000000000000 \<and> w AND 0x000FFFFFFFFFFFFF \<noteq> 0)"

text \<open>JavaScript's truthiness: what \<^verbatim>\<open>!v\<close> negates.\<close>

fun truthy :: "jsval \<Rightarrow> bool" where
  "truthy Undefined = False"
| "truthy Null = False"
| "truthy (Bool b) = b"
| "truthy (Num w) = (\<not> is_zero w \<and> \<not> is_nan w)"
| "truthy (Str s) = (s \<noteq> [])"
| "truthy (Buf bs) = True"
| "truthy (Arr vs) = True"
| "truthy (Obj kvs) = True"

text \<open>
  \<^verbatim>\<open>a === b\<close>. Primitives compare by type and value (a NaN equals nothing, the two
  zeros equal each other). Buffers, arrays and objects compare by identity; the only
  \<^verbatim>\<open>!==\<close> of the file compares two different properties of one parsed body, which never
  share an object, so identity is never given.
\<close>

fun strict_eq :: "jsval \<Rightarrow> jsval \<Rightarrow> bool" where
  "strict_eq Undefined Undefined = True"
| "strict_eq Null Null = True"
| "strict_eq (Bool a) (Bool b) = (a = b)"
| "strict_eq (Num a) (Num b) = (\<not> is_nan a \<and> \<not> is_nan b \<and> (a = b \<or> (is_zero a \<and> is_zero b)))"
| "strict_eq (Str a) (Str b) = (a = b)"
| "strict_eq _ _ = False"

text \<open>\<^verbatim>\<open>a || b\<close>\<close>

definition or_else :: "jsval \<Rightarrow> jsval \<Rightarrow> jsval" where
  "or_else a b = (if truthy a then a else b)"

text \<open>
  \<^verbatim>\<open>v.k\<close>: a \<^verbatim>\<open>TypeError\<close> on \<^verbatim>\<open>undefined\<close> and \<^verbatim>\<open>null\<close>, the own property of an
  object, and \<^verbatim>\<open>undefined\<close> otherwise (none of the property names the handlers read is
  defined on a primitive, a buffer or an array).
\<close>

fun get_prop :: "jsval \<Rightarrow> string \<Rightarrow> error + jsval" where
  "get_prop Undefined k = Inl TypeError"
| "get_prop Null k = Inl TypeError"
| "get_prop (Obj kvs) k = Inr (case map_of kvs k of None \<Rightarrow> Undefined | Some v \<Rightarrow> v)"
| "get_prop _ k = Inr Undefined"

text \<open>\<^verbatim>\<open>v.k1.k2\<close>...\<close>

fun path :: "jsval \<Rightarrow> string list \<Rightarrow> error + jsval" where
  "path v [] = Inr v"
| "path v (k # ks) = (case get_prop v k of Inl e \<Rightarrow> Inl e | Inr x \<Rightarrow> path x ks)"

text \<open>Sequencing of expressions that may throw.\<close>

definition bindE :: "error + 'a \<Rightarrow> ('a \<Rightarrow> error + 'b) \<Rightarrow> error + 'b" where
  "bindE m f = (case m of Inl e \<Rightarrow> Inl e | Inr x \<Rightarrow> f x)"

section \<open>The user document, the store and the world around a request\<close>

text \<open>
  The object literal \<^verbatim>\<open>credentials\<close> that sign-up hands to \<^verbatim>\<open>User.create\<close>, and the user
  document, which has these fields, its id and its token.
\<close>

record credentials =
  name :: jsval
  email :: jsval
  hashedPassword :: jsval
  location :: jsval
  biography :: jsval
  artwork :: "jsval list"

record user = credentials +
  uid :: string
  token :: jsval

datatype db_op =
    OpFind
  | OpFindOne jsval
  | OpFindById string
  | OpCreate credentials
  | OpSave user

text \<open>The collection, and the operations the store has been asked for so far.\<close>

record world =
  users :: "user list"
  ops :: "db_op list"

text \<open>
  What lies outside the file, as it answers during one request: the bcrypt library, the
  bytes \<^verbatim>\<open>crypto.randomBytes\<close> delivers, the store's verdict on an operation (a validation
  failure, a conflict on a unique index, a lost connection; \<open>None\<close> lets it proceed) and
  the id the store gives a new document.
\<close>

record env =
  bcrypt_hash :: "jsval \<Rightarrow> nat \<Rightarrow> error + string"
  bcrypt_compare :: "jsval \<Rightarrow> jsval \<Rightarrow> error + bool"
  crypto_random :: "nat \<Rightarrow> 8 word"
  db_fault :: "user list \<Rightarrow> db_op \<Rightarrow> error option"
  new_id :: string

record request =
  body :: jsval
  bearer :: "string option"
  params_id :: string

record response =
  status :: nat
  payload :: "jsval option"

definition bcryptSaltRounds :: nat where
  "bcryptSaltRounds = 10"

subsection \<open>Promises\<close>

text \<open>
  A promise chain runs against the world and settles with an error or a value. A
  handler's result \<open>Inl e\<close> is \<^verbatim>\<open>next(e)\<close>, from \<^verbatim>\<open>.catch(next)\<close> or from the router
  catching a synchronous throw; \<open>Inr r\<close> is the response sent. A variable that the source
  declares outside the chain and assigns inside it (\<^verbatim>\<open>let user\<close>) is the bound variable
  of the enclosing continuation.
\<close>

type_synonym 'a promise = "world \<Rightarrow> (error + 'a) \<times> world"

definition resolve :: "'a \<Rightarrow> 'a promise" where
  "resolve x = (\<lambda>w. (Inr x, w))"

definition reject :: "error \<Rightarrow> 'a promise" where
  "reject e = (\<lambda>w. (Inl e, w))"

definition settle :: "error + 'a \<Rightarrow> 'a promise" where
  "settle r = (\<lambda>w. (r, w))"

definition then_do :: "'a promise \<Rightarrow> ('a \<Rightarrow> 'b promise) \<Rightarrow> 'b promise" where
  "then_do m f = (\<lambda>w. case m w of (Inl e, w') \<Rightarrow> (Inl e, w') | (Inr x, w') \<Rightarrow> f x w')"

subsection \<open>Node's crypto and Buffer\<close>

definition randomBytes :: "env \<Rightarrow> nat \<Rightarrow> 8 word list" where
  "randomBytes en n = map (crypto_random en) [0..<n]"

definition hex_digit :: "nat \<Rightarrow> char" where
  "hex_digit n = ''0123456789abcdef'' ! (n mod 16)"

definition hex_byte :: "8 word \<Rightarrow> string" where
  "hex_byte b = [hex_digit (unat b div 16), hex_digit (unat b mod 16)]"

text \<open>\<^verbatim>\<open>buf.toString('hex')\<close>\<close>

definition toString_hex :: "8 word list \<Rightarrow> string" where
  "toString_hex bs = concat (map hex_byte bs)"

subsection \<open>The User model\<close>

text \<open>
  Modelled from the spec: the User model (\<^verbatim>\<open>app/models/user.js\<close>) and the store behind
  it are not part of the source at hand. By the spec's data model a record is created
  from the fields the handler hands over and an id assigned at creation, its token is
  empty until sign-in, a record is looked up by email or by id, saving replaces the
  stored record of that id, and \<open>hashedPassword\<close> is never serialized. An operation is
  recorded, then refused by the store or carried out on the collection.
\<close>

definition db_call :: "env \<Rightarrow> db_op \<Rightarrow> 'a promise \<Rightarrow> 'a promise" where
  "db_call en op run = (\<lambda>w.
     let w' = w\<lparr>ops := ops w @ [op]\<rparr>
     in case db_fault en (users w) op of Some e \<Rightarrow> (Inl e, w') | None \<Rightarrow> run w')"

text \<open>
  Modelled from the spec: the record \<^verbatim>\<open>User.create\<close> makes of the fields it is handed;
  the id is assigned at creation and there is no token before the first sign-in.
\<close>

definition new_user :: "env \<Rightarrow> credentials \<Rightarrow> user" where
  "new_user en d =
     \<lparr>name = name d,
      email = email d,
      hashedPassword = hashedPassword d,
      location = location d,
      biography = biography d,
      artwork = artwork d,
      uid = new_id en,
      token = Undefined\<rparr>"

text \<open>
  Modelled from the spec: \<^verbatim>\<open>User.find\<close>, \<^verbatim>\<open>User.findOne({ email })\<close>,
  \<^verbatim>\<open>User.findById\<close>, \<^verbatim>\<open>User.create\<close> and \<^verbatim>\<open>user.save\<close>. A lookup resolves to
  the record or to \<^verbatim>\<open>null\<close> (\<open>None\<close>).
\<close>

definition User_find :: "env \<Rightarrow> user list promise" where
  "User_find en = db_call en OpFind (\<lambda>w. (Inr (users w), w))"

definition User_findOne :: "env \<Rightarrow> jsval \<Rightarrow> user option promise" where
  "User_findOne en em = db_call en (OpFindOne em) (\<lambda>w. (Inr (find (\<lambda>u. email u = em) (users w)), w))"

definition User_findById :: "env \<Rightarrow> string \<Rightarrow> user option promise" where
  "User_findById en i = db_call en (OpFindById i) (\<lambda>w. (Inr (find (\<lambda>u. uid u = i) (users w)), w))"

definition User_create :: "env \<Rightarrow> credentials \<Rightarrow> user promise" where
  "User_create en d = db_call en (OpCreate d)
     (\<lambda>w. (Inr (new_user en d), w\<lparr>users := users w @ [new_user en d]\<rparr>))"

definition User_save :: "env \<Rightarrow> user \<Rightarrow> user promise" where
  "User_save en u = db_call en (OpSave u)
     (\<lambda>w. (Inr u, w\<lparr>users := map (\<lambda>v. if uid v = uid u then u else v) (users w)\<rparr>))"

text \<open>
  Modelled from the spec: \<^verbatim>\<open>user.toObject()\<close> with the transform of the User model. The
  serialized user has the fields of the record, the token included, and never
  \<open>hashedPassword\<close>.
\<close>

definition toObject :: "user \<Rightarrow> jsval" where
  "toObject u = Obj
     [(''_id'', Str (uid u)),
      (''name'', name u),
      (''email'', email u),
      (''location'', location u),
      (''biography'', biography u),
      (''artwork'', Arr (artwork u)),
      (''token'', token u)]"

text \<open>
  Modelled from the spec: \<^verbatim>\<open>handle404\<close> of \<^verbatim>\<open>lib/custom_errors\<close>, not part of the source
  at hand. Fetch-by-id fails with a not-found error if the id does not resolve to a
  record.
\<close>

definition handle404 :: "user option \<Rightarrow> error + user" where
  "handle404 record = (case record of None \<Rightarrow> Inl DocumentNotFoundError | Some u \<Rightarrow> Inr u)"

text \<open>
  Modelled from the spec: the bearer strategy behind \<^verbatim>\<open>requireToken\<close>, configured outside
  the source at hand. It resolves the token of the authorization header to the user
  record that stores it and fails with an unauthorized error if the token is absent or
  resolves to no record.
\<close>

definition requireToken :: "request \<Rightarrow> user promise" where
  "requireToken req = (\<lambda>w.
     case bearer req of
       None \<Rightarrow> (Inl Unauthorized, w)
     | Some t \<Rightarrow>
         (case find (\<lambda>u. token u = Str t) (users w) of
            None \<Rightarrow> (Inl Unauthorized, w)
          | Some u \<Rightarrow> (Inr u, w)))"

text \<open>Reading a field of the looked-up record, which is \<^verbatim>\<open>null\<close> when nothing was found.\<close>

definition deref :: "user option \<Rightarrow> error + user" where
  "deref record = (case record of None \<Rightarrow> Inl TypeError | Some u \<Rightarrow> Inr u)"

section \<open>The route handlers\<close>

definition json_response :: "nat \<Rightarrow> jsval \<Rightarrow> response" where
  "json_response code v = \<lparr>status = code, payload = Some v\<rparr>"

definition sendStatus :: "nat \<Rightarrow> response" where
  "sendStatus code = \<lparr>status = code, payload = None\<rparr>"

text \<open>\<^verbatim>\<open>GET /view-artists\<close>\<close>

definition view_artists :: "env \<Rightarrow> request \<Rightarrow> response promise" where
  "view_artists en req =
     then_do (User_find en) (\<lambda>us.
     resolve (json_response 200 (Obj [(''artists'', Arr (map toObject us))])))"

text \<open>
  \<^verbatim>\<open>POST /sign-up\<close>. The first callback is the guard on the credentials, the third
  builds the object literal handed to \<^verbatim>\<open>User.create\<close>.
\<close>

definition sign_up_guard :: "jsval \<Rightarrow> error + unit" where
  "sign_up_guard creds =
     (if \<not> truthy creds then Inl BadParamsError
      else bindE (get_prop creds ''password'') (\<lambda>p.
        if \<not> truthy p then Inl BadParamsError
        else bindE (get_prop creds ''password_confirmation'') (\<lambda>c.
          if \<not> strict_eq p c then Inl BadParamsError else Inr ())))"

definition sign_up_credentials :: "jsval \<Rightarrow> string \<Rightarrow> error + credentials" where
  "sign_up_credentials b hash =
     bindE (path b [''credentials'', ''name'']) (\<lambda>n.
     bindE (path b [''credentials'', ''email'']) (\<lambda>e.
     bindE (path b [''credentials'', ''location'']) (\<lambda>l.
     bindE (path b [''credentials'', ''biography'']) (\<lambda>bi.
     Inr \<lparr>name = n,
          email = e,
          hashedPassword = Str hash,
          location = or_else l (Str ''No Location Given''),
          biography = or_else bi (Str ''No Biography Found''),
          artwork = []\<rparr>))))"

definition sign_up :: "env \<Rightarrow> request \<Rightarrow> response promise" where
  "sign_up en req =
     then_do (settle (get_prop (body req) ''credentials'')) (\<lambda>creds.
     then_do (settle (sign_up_guard creds)) (\<lambda>_.
     then_do (settle (bindE (path (body req) [''credentials'', ''password''])
                        (\<lambda>p. bcrypt_hash en p bcryptSaltRounds))) (\<lambda>hash.
     then_do (settle (sign_up_credentials (body req) hash)) (\<lambda>d.
     then_do (User_create en d) (\<lambda>u.
     resolve (json_response 201 (Obj [(''user'', toObject u)])))))))"

text \<open>
  \<^verbatim>\<open>POST /sign-in\<close>. The token is \<^verbatim>\<open>crypto.randomBytes(16).toString('hex')\<close>.
\<close>

definition sign_in_token :: "env \<Rightarrow> string" where
  "sign_in_token en = toString_hex (randomBytes en 16)"

definition sign_in :: "env \<Rightarrow> request \<Rightarrow> response promise" where
  "sign_in en req =
     then_do (settle (path (body req) [''credentials'', ''password''])) (\<lambda>pw.
     then_do (settle (path (body req) [''credentials'', ''email''])) (\<lambda>em.
     then_do (User_findOne en em) (\<lambda>record.
       case record of
         None \<Rightarrow> reject BadCredentialsError
       | Some u \<Rightarrow>
           then_do (settle (bcrypt_compare en pw (hashedPassword u))) (\<lambda>correctPassword.
           then_do
             (if correctPassword
              then User_save en (u\<lparr>token := Str (sign_in_token en)\<rparr>)
              else reject BadCredentialsError) (\<lambda>saved.
           resolve (json_response 201 (Obj [(''user'', toObject saved)])))))))"

text \<open>
  \<^verbatim>\<open>PATCH /change-password\<close>, behind \<^verbatim>\<open>requireToken\<close>; \<open>ru\<close> is \<^verbatim>\<open>req.user\<close>.
\<close>

definition change_password :: "env \<Rightarrow> user \<Rightarrow> request \<Rightarrow> response promise" where
  "change_password en ru req =
     then_do (User_findById en (uid ru)) (\<lambda>record.
     then_do (settle (bindE (path (body req) [''passwords'', ''old'']) (\<lambda>old.
                      bindE (deref record) (\<lambda>u.
                      bcrypt_compare en old (hashedPassword u))))) (\<lambda>correctPassword.
     then_do (settle (bindE (path (body req) [''passwords'', ''new'']) (\<lambda>nw.
                      if \<not> truthy nw \<or> \<not> correctPassword then Inl BadParamsError
                      else Inr ()))) (\<lambda>_.
     then_do (settle (bindE (path (body req) [''passwords'', ''new''])
                        (\<lambda>nw. bcrypt_hash en nw bcryptSaltRounds))) (\<lambda>hash.
     then_do (settle (deref record)) (\<lambda>u.
     then_do (User_save en (u\<lparr>hashedPassword := Str hash\<rparr>)) (\<lambda>_.
     resolve (sendStatus 204)))))))"

text \<open>\<^verbatim>\<open>PATCH /update-artist\<close>, behind \<^verbatim>\<open>requireToken\<close>.\<close>

definition update_credentials :: "jsval \<Rightarrow> error + jsval \<times> jsval \<times> jsval" where
  "update_credentials b =
     bindE (path b [''credentials'', ''name'']) (\<lambda>n.
     bindE (path b [''credentials'', ''location'']) (\<lambda>l.
     bindE (path b [''credentials'', ''biography'']) (\<lambda>bi.
     Inr (or_else n (Str ''Anonymous''),
          or_else l (Str ''No Location Given''),
          or_else bi (Str ''No Biography Found'')))))"

definition update_artist :: "env \<Rightarrow> user \<Rightarrow> request \<Rightarrow> response promise" where
  "update_artist en ru req =
     then_do (User_findById en (uid ru)) (\<lambda>record.
     then_do (settle (update_credentials (body req))) (\<lambda>(n, l, bi).
     then_do (settle (deref record)) (\<lambda>u.
     then_do (User_save en (u\<lparr>name := n, location := l, biography := bi\<rparr>)) (\<lambda>_.
     resolve (sendStatus 204)))))"



text \<open>\<^verbatim>\<open>GET /artists/:id\<close>\<close>

definition show_artist :: "env \<Rightarrow> request \<Rightarrow> response promise" where
  "show_artist en req =
     then_do (User_findById en (params_id req)) (\<lambda>record.
     then_do (settle (handle404 record)) (\<lambda>u.
     resolve (json_response 200 (Obj [(''artist'', toObject u)]))))"

text \<open>A route with \<^verbatim>\<open>requireToken\<close> in front of its handler.\<close>

definition authenticated :: "(user \<Rightarrow> request \<Rightarrow> response promise) \<Rightarrow> request \<Rightarrow> response promise" where
  "authenticated handler req = then_do (requireToken req) (\<lambda>ru. handler ru req)"

section \<open>Reading a response, and one concrete world\<close>

text \<open>The names of the own properties of a serialized object.\<close>

fun own_keys :: "jsval \<Rightarrow> string list" where
  "own_keys (Obj kvs) = map fst kvs"
| "own_keys _ = []"

text \<open>
  A world to run the handlers in: a stand-in for bcrypt that refuses what is not a
  string, as the library does, and otherwise prefixes the password; a store that lets
  every operation proceed; one registered artist, signed in with token \<open>t0\<close>.
\<close>

definition demo_env :: env where
  "demo_env =
     \<lparr>bcrypt_hash = (\<lambda>d r. case d of Str s \<Rightarrow> Inr (''$2b$'' @ s)
                              | _ \<Rightarrow> Inl (HashError ''data must be a string'')),
      bcrypt_compare = (\<lambda>d h. case d of
                           Str s \<Rightarrow> (case h of Str t \<Rightarrow> Inr (t = ''$2b$'' @ s)
                                     | _ \<Rightarrow> Inl (HashError ''data and hash must be strings''))
                         | _ \<Rightarrow> Inl (HashError ''data and hash must be strings'')),
      crypto_random = (\<lambda>i. of_nat (37 * i + 10)),
      db_fault = (\<lambda>us op. None),
      new_id = ''u2''\<rparr>"

definition demo_user :: user where
  "demo_user =
     \<lparr>name = Str ''Alice'',
      email = Str ''x@y.com'',
      hashedPassword = Str ''$2b$secret'',
      location = Str ''Paris'',
      biography = Str ''Painter'',
      artwork = [],
      uid = ''u1'',
      token = Str ''t0''\<rparr>"

definition demo_world :: world where
  "demo_world = \<lparr>users = [demo_user], ops = []\<rparr>"

text \<open>A request whose body is \<^verbatim>\<open>{ k: { ... } }\<close>, with an optional bearer token.\<close>

definition demo_request :: "string \<Rightarrow> (string \<times> jsval) list \<Rightarrow> string option \<Rightarrow> request" where
  "demo_request k kvs t = \<lparr>body = Obj [(k, Obj kvs)], bearer = t, params_id = ''u1''\<rparr>"

section \<open>Facts about the building blocks\<close>

lemma get_prop_error: "get_prop v k = Inl e \<Longrightarrow> e = TypeError"
  by (cases v) auto

lemma path_error: "path v ks = Inl e \<Longrightarrow> e = TypeError"
  by (induction ks arbitrary: v) (auto split: sum.splits dest: get_prop_error)

lemma strict_eq_truthy: "truthy p \<Longrightarrow> strict_eq p c \<Longrightarrow> p = c"
  by (cases p; cases c) auto

lemmas promise_defs = then_do_def settle_def resolve_def reject_def

lemmas demo_defs = demo_env_def demo_user_def demo_world_def demo_request_def

lemma User_findOne_result:
  "User_findOne en em w = (Inr found, w1) \<Longrightarrow>
     found = find (\<lambda>u. email u = em) (users w) \<and> w1 = w\<lparr>ops := ops w @ [OpFindOne em]\<rparr>"
  by (auto simp: User_findOne_def db_call_def Let_def split: option.splits)

lemma User_findById_result:
  "User_findById en i w = (Inr found, w1) \<Longrightarrow>
     found = find (\<lambda>u. uid u = i) (users w) \<and> w1 = w\<lparr>ops := ops w @ [OpFindById i]\<rparr>"
  by (auto simp: User_findById_def db_call_def Let_def split: option.splits)

lemma find_in_set: "find P us = Some u \<Longrightarrow> u \<in> set us \<and> P u"
  by (induction us) (auto split: if_splits)

lemma find_replaced:
  "\<exists>v \<in> set us. uid v = i \<Longrightarrow> uid u' = i \<Longrightarrow>
     find (\<lambda>v. uid v = i) (map (\<lambda>v. if uid v = i then u' else v) us) = Some u'"
  by (induction us) auto

lemma update_credentials_error: "update_credentials b = Inl e \<Longrightarrow> e = TypeError"
  by (auto simp: update_credentials_def bindE_def split: sum.splits
           dest: path_error get_prop_error)

lemma hex_digit_lower: "hex_digit n \<in> set ''0123456789abcdef''"
  unfolding hex_digit_def by (rule nth_mem) simp

lemma hex_byte_lower: "set (hex_byte b) \<subseteq> set ''0123456789abcdef''"
  using hex_digit_lower [of "unat b div 16"] hex_digit_lower [of "unat b mod 16"]
  by (simp add: hex_byte_def)

lemma toString_hex_lower: "set (toString_hex bs) \<subseteq> set ''0123456789abcdef''"
proof -
  have "set (toString_hex bs) = (\<Union>b \<in> set bs. set (hex_byte b))"
    by (simp add: toString_hex_def)
  then show ?thesis using hex_byte_lower by blast
qed

lemma toString_hex_length: "length (toString_hex bs) = 2 * length bs"
  by (induction bs) (simp_all add: toString_hex_def hex_byte_def)

lemma toString_hex_Cons: "toString_hex (b # bs) = hex_byte b @ toString_hex bs"
  by (simp add: toString_hex_def)

lemma toString_hex_digits:
  "i < length bs \<Longrightarrow>
     toString_hex bs ! (2 * i) = ''0123456789abcdef'' ! (unat (bs ! i) div 16) \<and>
     toString_hex bs ! (2 * i + 1) = ''0123456789abcdef'' ! (unat (bs ! i) mod 16)"
proof (induction bs arbitrary: i)
  case Nil
  then show ?case by simp
next
  case (Cons b bs)
  have d: "unat b div 16 < 16" using unsigned_less [of b, where ?'a = nat] by simp
  show ?case
  proof (cases i)
    case 0
    then show ?thesis
      using d by (simp add: toString_hex_Cons hex_byte_def hex_digit_def del: nth_Cons_numeral)
  next
    case (Suc j)
    with Cons.prems have "j < length bs" by simp
    from Cons.IH [OF this] Suc show ?thesis
      by (simp add: toString_hex_Cons hex_byte_def nth_append)
  qed
qed

lemma hex_digit_inj: "a < 16 \<Longrightarrow> b < 16 \<Longrightarrow> hex_digit a = hex_digit b \<Longrightarrow> a = b"
proof -
  assume a: "a < 16" and b: "b < 16" and e: "hex_digit a = hex_digit b"
  have dist: "distinct ''0123456789abcdef''" by simp
  have len: "length ''0123456789abcdef'' = 16" by simp
  from e a b have "''0123456789abcdef'' ! a = ''0123456789abcdef'' ! b"
    by (simp add: hex_digit_def)
  with dist a b len show ?thesis by (simp add: nth_eq_iff_index_eq)
qed

lemma hex_byte_inj: "hex_byte a = hex_byte b \<Longrightarrow> a = b"
proof -
  assume e: "hex_byte a = hex_byte b"
  have la: "unat a div 16 < 16" "unat b div 16 < 16"
    using unsigned_less [of a, where ?'a = nat] unsigned_less [of b, where ?'a = nat] by simp_all
  have lm: "unat a mod 16 < 16" "unat b mod 16 < 16" by simp_all
  from e have "hex_digit (unat a div 16) = hex_digit (unat b div 16)"
    and "hex_digit (unat a mod 16) = hex_digit (unat b mod 16)"
    by (simp_all add: hex_byte_def)
  then have "unat a div 16 = unat b div 16" "unat a mod 16 = unat b mod 16"
    using la lm by (blast intro: hex_digit_inj)+
  then have "unat a = unat b" by (metis div_mult_mod_eq)
  then show ?thesis by (rule unsigned_word_eqI)
qed

lemma toString_hex_inj: "toString_hex xs = toString_hex ys \<Longrightarrow> xs = ys"
proof (induction xs arbitrary: ys)
  case Nil
  then show ?case by (cases ys) (simp_all add: toString_hex_def hex_byte_def)
next
  case (Cons x xs)
  show ?case
  proof (cases ys)
    case Nil
    with Cons.prems show ?thesis by (simp add: toString_hex_def hex_byte_def)
  next
    case (Cons y ys')
    with Cons.prems have "hex_byte x @ toString_hex xs = hex_byte y @ toString_hex ys'"
      by (simp add: toString_hex_Cons)
    moreover have "length (hex_byte x) = length (hex_byte y)" by (simp add: hex_byte_def)
    ultimately have "hex_byte x = hex_byte y" "toString_hex xs = toString_hex ys'" by simp_all
    with Cons.IH Cons show ?thesis by (simp add: hex_byte_inj)
  qed
qed

lemma randomBytes_length: "length (randomBytes en n) = n"
  by (simp add: randomBytes_def)

lemmas run_defs = promise_defs demo_defs bindE_def db_call_def Let_def
  User_find_def User_findOne_def User_findById_def User_create_def User_save_def
  new_user_def or_else_def json_response_def sendStatus_def
  handle404_def deref_def requireToken_def authenticated_def bcryptSaltRounds_def

lemma demo_token: "sign_in_token demo_env = ''0a2f54799ec3e80d32577ca1c6eb1035''"
  by (simp add: sign_in_token_def toString_hex_def randomBytes_def hex_byte_def hex_digit_def
        demo_env_def upt_rec)

section \<open>Serialized users\<close>

text \<open>
  C1. Every response of a request that completes successfully, for sign-up, sign-in,
  fetch-by-id and fetch-all, carries users only as \<^verbatim>\<open>toObject\<close> serializes them, and
  the serialized representation of any user has no \<open>hashedPassword\<close> property.
\<close>

theorem responses_omit_hashedPassword:
  "(sign_up en req w = (Inr r, w') \<longrightarrow> (\<exists>u. payload r = Some (Obj [(''user'', toObject u)]))) \<and>
   (sign_in en req w = (Inr r, w') \<longrightarrow> (\<exists>u. payload r = Some (Obj [(''user'', toObject u)]))) \<and>
   (show_artist en req w = (Inr r, w') \<longrightarrow> (\<exists>u. payload r = Some (Obj [(''artist'', toObject u)]))) \<and>
   (view_artists en req w = (Inr r, w') \<longrightarrow>
      (\<exists>us. payload r = Some (Obj [(''artists'', Arr (map toObject us))]))) \<and>
   ''hashedPassword'' \<notin> set (own_keys (toObject v)) \<and>
   get_prop (toObject v) ''hashedPassword'' = Inr Undefined"
proof -
  have up: "sign_up en req w = (Inr r, w') \<longrightarrow> (\<exists>u. payload r = Some (Obj [(''user'', toObject u)]))"
    by (auto simp: sign_up_def promise_defs json_response_def User_create_def db_call_def Let_def
          split: sum.splits option.splits)
  have "in": "sign_in en req w = (Inr r, w') \<longrightarrow> (\<exists>u. payload r = Some (Obj [(''user'', toObject u)]))"
    by (auto simp: sign_in_def promise_defs json_response_def User_save_def User_findOne_def
          db_call_def Let_def simp del: path.simps
          split: sum.splits option.splits if_splits)
  have sh: "show_artist en req w = (Inr r, w') \<longrightarrow> (\<exists>u. payload r = Some (Obj [(''artist'', toObject u)]))"
    by (auto simp: show_artist_def promise_defs json_response_def handle404_def User_findById_def
          db_call_def Let_def split: sum.splits option.splits)
  have vw: "view_artists en req w = (Inr r, w') \<longrightarrow>
      (\<exists>us. payload r = Some (Obj [(''artists'', Arr (map toObject us))]))"
    by (auto simp: view_artists_def promise_defs json_response_def User_find_def
          db_call_def Let_def split: sum.splits option.splits)
  have k: "''hashedPassword'' \<notin> set (own_keys (toObject v))"
    by (simp add: toObject_def)
  have g: "get_prop (toObject v) ''hashedPassword'' = Inr Undefined"
    by (simp add: toObject_def)
  from up "in" sh vw k g show ?thesis by blast
qed

theorem responses_omit_hashedPassword_witness:
  "sign_up demo_env (demo_request ''credentials''
       [(''email'', Str ''new@y.com''), (''password'', Str ''secret''),
        (''password_confirmation'', Str ''secret'')] None) demo_world =
     (Inr (json_response 201 (Obj [(''user'', toObject (new_user demo_env
        \<lparr>name = Undefined, email = Str ''new@y.com'', hashedPassword = Str ''$2b$secret'',
         location = Str ''No Location Given'', biography = Str ''No Biography Found'',
         artwork = []\<rparr>))])),
      \<lparr>users = [demo_user, new_user demo_env
        \<lparr>name = Undefined, email = Str ''new@y.com'', hashedPassword = Str ''$2b$secret'',
         location = Str ''No Location Given'', biography = Str ''No Biography Found'',
         artwork = []\<rparr>],
       ops = [OpCreate
        \<lparr>name = Undefined, email = Str ''new@y.com'', hashedPassword = Str ''$2b$secret'',
         location = Str ''No Location Given'', biography = Str ''No Biography Found'',
         artwork = []\<rparr>]\<rparr>) \<and>
   sign_in demo_env (demo_request ''credentials''
       [(''email'', Str ''x@y.com''), (''password'', Str ''secret'')] None) demo_world =
     (Inr (json_response 201 (Obj [(''user'',
        toObject (demo_user\<lparr>token := Str (sign_in_token demo_env)\<rparr>))])),
      \<lparr>users = [demo_user\<lparr>token := Str (sign_in_token demo_env)\<rparr>],
       ops = [OpFindOne (Str ''x@y.com''),
              OpSave (demo_user\<lparr>token := Str (sign_in_token demo_env)\<rparr>)]\<rparr>) \<and>
   show_artist demo_env (demo_request ''credentials'' [] None) demo_world =
     (Inr (json_response 200 (Obj [(''artist'', toObject demo_user)])),
      \<lparr>users = [demo_user], ops = [OpFindById ''u1'']\<rparr>) \<and>
   view_artists demo_env (demo_request ''credentials'' [] None) demo_world =
     (Inr (json_response 200 (Obj [(''artists'', Arr [toObject demo_user])])),
      \<lparr>users = [demo_user], ops = [OpFind]\<rparr>) \<and>
   (\<exists>u. payload (json_response 201 (Obj [(''user'', toObject (new_user demo_env
        \<lparr>name = Undefined, email = Str ''new@y.com'', hashedPassword = Str ''$2b$secret'',
         location = Str ''No Location Given'', biography = Str ''No Biography Found'',
         artwork = []\<rparr>))])) = Some (Obj [(''user'', toObject u)])) \<and>
   (\<exists>u. payload (json_response 201 (Obj [(''user'',
        toObject (demo_user\<lparr>token := Str (sign_in_token demo_env)\<rparr>))])) =
        Some (Obj [(''user'', toObject u)])) \<and>
   (\<exists>u. payload (json_response 200 (Obj [(''artist'', toObject demo_user)])) =
        Some (Obj [(''artist'', toObject u)])) \<and>
   (\<exists>us. payload (json_response 200 (Obj [(''artists'', Arr [toObject demo_user])])) =
        Some (Obj [(''artists'', Arr (map toObject us))])) \<and>
   hashedPassword demo_user = Str ''$2b$secret'' \<and>
   ''hashedPassword'' \<notin> set (own_keys (toObject demo_user)) \<and>
   get_prop (toObject demo_user) ''hashedPassword'' = Inr Undefined"
proof -
  let ?up = "demo_request ''credentials''
       [(''email'', Str ''new@y.com''), (''password'', Str ''secret''),
        (''password_confirmation'', Str ''secret'')] None"
  let ?in = "demo_request ''credentials''
       [(''email'', Str ''x@y.com''), (''password'', Str ''secret'')] None"
  let ?get = "demo_request ''credentials'' [] None"
  let ?d = "\<lparr>name = Undefined, email = Str ''new@y.com'', hashedPassword = Str ''$2b$secret'',
         location = Str ''No Location Given'', biography = Str ''No Biography Found'',
         artwork = []\<rparr>"
  let ?t = "demo_user\<lparr>token := Str (sign_in_token demo_env)\<rparr>"
  have h1: "sign_up demo_env ?up demo_world =
     (Inr (json_response 201 (Obj [(''user'', toObject (new_user demo_env ?d))])),
      \<lparr>users = [demo_user, new_user demo_env ?d], ops = [OpCreate ?d]\<rparr>)"
    by (simp add: sign_up_def sign_up_guard_def sign_up_credentials_def run_defs)
  have h2: "sign_in demo_env ?in demo_world =
     (Inr (json_response 201 (Obj [(''user'', toObject ?t)])),
      \<lparr>users = [?t], ops = [OpFindOne (Str ''x@y.com''), OpSave ?t]\<rparr>)"
    by (simp add: sign_in_def run_defs)
  have h3: "show_artist demo_env ?get demo_world =
     (Inr (json_response 200 (Obj [(''artist'', toObject demo_user)])),
      \<lparr>users = [demo_user], ops = [OpFindById ''u1'']\<rparr>)"
    by (simp add: show_artist_def run_defs)
  have h4: "view_artists demo_env ?get demo_world =
     (Inr (json_response 200 (Obj [(''artists'', Arr [toObject demo_user])])),
      \<lparr>users = [demo_user], ops = [OpFind]\<rparr>)"
    by (simp add: view_artists_def run_defs)
  have h5: "hashedPassword demo_user = Str ''$2b$secret''"
    by (simp add: demo_user_def)
  note c1 = responses_omit_hashedPassword [of demo_env ?up demo_world _ _ demo_user]
  note c2 = responses_omit_hashedPassword [of demo_env ?in demo_world _ _ demo_user]
  note c3 = responses_omit_hashedPassword [of demo_env ?get demo_world _ _ demo_user]
  from c1 h1 have g1: "\<exists>u. payload (json_response 201 (Obj [(''user'',
      toObject (new_user demo_env ?d))])) = Some (Obj [(''user'', toObject u)])"
    by blast
  from c2 h2 have g2: "\<exists>u. payload (json_response 201 (Obj [(''user'', toObject ?t)])) =
      Some (Obj [(''user'', toObject u)])"
    by blast
  from c3 h3 have g3: "\<exists>u. payload (json_response 200 (Obj [(''artist'', toObject demo_user)])) =
      Some (Obj [(''artist'', toObject u)])"
    by blast
  from c3 h4 have g4: "\<exists>us. payload (json_response 200 (Obj [(''artists'',
      Arr [toObject demo_user])])) = Some (Obj [(''artists'', Arr (map toObject us))])"
    by blast
  from c1 have g5: "''hashedPassword'' \<notin> set (own_keys (toObject demo_user))"
    and g6: "get_prop (toObject demo_user) ''hashedPassword'' = Inr Undefined"
    by blast+
  from h1 h2 h3 h4 g1 g2 g3 g4 h5 g5 g6 show ?thesis by blast
qed

section \<open>Sign-up\<close>

text \<open>
  C2. A sign-up whose credentials object is absent, whose password is missing or the
  empty string, or whose password differs from its confirmation fails with
  \<open>BadParamsError\<close>, and the world is the one the request found: no record is created
  and the store is never asked for anything, \<^verbatim>\<open>User.create\<close> included. The body is
  what the body parser left in \<^verbatim>\<open>req.body\<close>, so \<^verbatim>\<open>req.body.credentials\<close> can be read;
  a confirmation differs when it is another value, or when \<^verbatim>\<open>!==\<close> says so.
\<close>

theorem sign_up_rejects_bad_credentials:
  assumes "get_prop (body req) ''credentials'' = Inr creds"
    and "\<not> truthy creds \<or>
         (\<exists>p. get_prop creds ''password'' = Inr p \<and> \<not> truthy p) \<or>
         (\<exists>p c. get_prop creds ''password'' = Inr p \<and>
                get_prop creds ''password_confirmation'' = Inr c \<and>
                (p \<noteq> c \<or> \<not> strict_eq p c))"
  shows "sign_up en req w = (Inl BadParamsError, w)"
proof -
  have "sign_up_guard creds = Inl BadParamsError"
    using assms(2) by (auto simp: sign_up_guard_def bindE_def dest: strict_eq_truthy)
  then show ?thesis
    using assms(1) by (simp add: sign_up_def promise_defs)
qed

theorem sign_up_rejects_bad_credentials_witness:
  "get_prop (body (demo_request ''credentials''
       [(''email'', Str ''x@y.com''), (''password'', Str ''a''),
        (''password_confirmation'', Str ''b'')] None)) ''credentials'' =
     Inr (Obj [(''email'', Str ''x@y.com''), (''password'', Str ''a''),
               (''password_confirmation'', Str ''b'')]) \<and>
   get_prop (Obj [(''email'', Str ''x@y.com''), (''password'', Str ''a''),
                  (''password_confirmation'', Str ''b'')]) ''password'' = Inr (Str ''a'') \<and>
   get_prop (Obj [(''email'', Str ''x@y.com''), (''password'', Str ''a''),
                  (''password_confirmation'', Str ''b'')]) ''password_confirmation'' = Inr (Str ''b'') \<and>
   Str ''a'' \<noteq> Str ''b'' \<and>
   sign_up demo_env (demo_request ''credentials''
       [(''email'', Str ''x@y.com''), (''password'', Str ''a''),
        (''password_confirmation'', Str ''b'')] None) demo_world =
     (Inl BadParamsError, demo_world)"
proof -
  let ?c = "Obj [(''email'', Str ''x@y.com''), (''password'', Str ''a''),
                 (''password_confirmation'', Str ''b'')]"
  let ?r = "demo_request ''credentials''
       [(''email'', Str ''x@y.com''), (''password'', Str ''a''),
        (''password_confirmation'', Str ''b'')] None"
  have h1: "get_prop (body ?r) ''credentials'' = Inr ?c"
    by (simp add: demo_request_def)
  have h2: "\<not> truthy ?c \<or>
         (\<exists>p. get_prop ?c ''password'' = Inr p \<and> \<not> truthy p) \<or>
         (\<exists>p c. get_prop ?c ''password'' = Inr p \<and>
                get_prop ?c ''password_confirmation'' = Inr c \<and>
                (p \<noteq> c \<or> \<not> strict_eq p c))"
    by simp
  from sign_up_rejects_bad_credentials [OF h1 h2, of demo_env demo_world] h1
  show ?thesis by simp
qed

text \<open>
  What a successful sign-up hands to \<^verbatim>\<open>User.create\<close> and what the created record
  holds: \<open>location\<close> and \<open>biography\<close> are the input's value or, where that is
  falsy, the sentinel string; \<open>name\<close> is the input's value as it came.
\<close>

lemma sign_up_creates:
  assumes "sign_up en req w = (Inr r, w')"
    and "path (body req) [''credentials'', ''name''] = Inr n"
    and "path (body req) [''credentials'', ''location''] = Inr l"
    and "path (body req) [''credentials'', ''biography''] = Inr b"
  shows "\<exists>d. ops w' = ops w @ [OpCreate d] \<and>
           users w' = users w @ [new_user en d] \<and>
           payload r = Some (Obj [(''user'', toObject (new_user en d))]) \<and>
           name d = n \<and>
           location d = or_else l (Str ''No Location Given'') \<and>
           biography d = or_else b (Str ''No Biography Found'') \<and>
           name (new_user en d) = n \<and>
           location (new_user en d) = or_else l (Str ''No Location Given'') \<and>
           biography (new_user en d) = or_else b (Str ''No Biography Found'')"
proof -
  let ?d = "\<lambda>e h. \<lparr>name = n, email = e, hashedPassword = Str h,
                    location = or_else l (Str ''No Location Given''),
                    biography = or_else b (Str ''No Biography Found''),
                    artwork = []\<rparr>"
  from assms(1) obtain h d where built: "sign_up_credentials (body req) h = Inr d"
    and created: "User_create en d w = (Inr (new_user en d), w')"
    and r: "r = json_response 201 (Obj [(''user'', toObject (new_user en d))])"
    by (auto simp: sign_up_def promise_defs User_create_def db_call_def Let_def
          split: sum.splits option.splits)
  from built assms(2-4) obtain e where d: "d = ?d e h"
    by (auto simp: sign_up_credentials_def bindE_def simp del: path.simps split: sum.splits)
  from created have w': "w' = w\<lparr>ops := ops w @ [OpCreate d], users := users w @ [new_user en d]\<rparr>"
    by (auto simp: User_create_def db_call_def Let_def split: option.splits)
  have "ops w' = ops w @ [OpCreate d]" "users w' = users w @ [new_user en d]"
    using w' by simp_all
  moreover have "payload r = Some (Obj [(''user'', toObject (new_user en d))])"
    using r by (simp add: json_response_def)
  moreover have "name d = n" "location d = or_else l (Str ''No Location Given'')"
      "biography d = or_else b (Str ''No Biography Found'')"
    using d by simp_all
  moreover have "name (new_user en d) = n"
      "location (new_user en d) = or_else l (Str ''No Location Given'')"
      "biography (new_user en d) = or_else b (Str ''No Biography Found'')"
    using d by (simp_all add: new_user_def)
  ultimately show ?thesis by blast
qed

text \<open>
  C6. A successful sign-up is to store each of \<open>name\<close>, \<open>location\<close> and
  \<open>biography\<close> that the input leaves out as its sentinel string. The handler does so
  for \<open>location\<close> and \<open>biography\<close> only: a sign-up with an email and a confirmed
  password and nothing else hands \<^verbatim>\<open>User.create\<close> the name \<^verbatim>\<open>undefined\<close>, where
  update-profile writes \<^verbatim>\<open>|| 'Anonymous'\<close>, and the created record holds no
  \<open>Anonymous\<close>.
\<close>

theorem sign_up_leaves_absent_name_undefined:
  "sign_up demo_env (demo_request ''credentials''
       [(''email'', Str ''new@y.com''), (''password'', Str ''secret''),
        (''password_confirmation'', Str ''secret'')] None) demo_world =
     (Inr (json_response 201 (Obj [(''user'', toObject
        \<lparr>name = Undefined, email = Str ''new@y.com'',
         hashedPassword = Str ''$2b$secret'', location = Str ''No Location Given'',
         biography = Str ''No Biography Found'', artwork = [], uid = ''u2'',
         token = Undefined\<rparr>)])),
      \<lparr>users = [demo_user,
         \<lparr>name = Undefined, email = Str ''new@y.com'',
          hashedPassword = Str ''$2b$secret'', location = Str ''No Location Given'',
          biography = Str ''No Biography Found'', artwork = [], uid = ''u2'',
          token = Undefined\<rparr>],
       ops = [OpCreate
         \<lparr>name = Undefined, email = Str ''new@y.com'',
          hashedPassword = Str ''$2b$secret'', location = Str ''No Location Given'',
          biography = Str ''No Biography Found'', artwork = []\<rparr>]\<rparr>) \<and>
   path (body (demo_request ''credentials''
       [(''email'', Str ''new@y.com''), (''password'', Str ''secret''),
        (''password_confirmation'', Str ''secret'')] None)) [''credentials'', ''name''] =
     Inr Undefined \<and>
   Undefined \<noteq> Str ''Anonymous''"
  by (simp add: sign_up_def sign_up_guard_def sign_up_credentials_def run_defs)

section \<open>Sign-in\<close>

text \<open>
  C3. A sign-in whose lookup finds no record for the email and a sign-in whose lookup
  finds a record whose stored hash the password does not match fail with the identical
  error, \<open>BadCredentialsError\<close> built without arguments in both places: whatever the error
  handler derives from the error (kind, status, message) is the same for both, and the
  collection is untouched in both.
\<close>

theorem sign_in_failures_identical:
  assumes "path (body reqA) [''credentials'', ''password''] = Inr pwA"
    and "path (body reqA) [''credentials'', ''email''] = Inr emA"
    and "User_findOne enA emA wA = (Inr None, wA')"
    and "path (body reqB) [''credentials'', ''password''] = Inr pwB"
    and "path (body reqB) [''credentials'', ''email''] = Inr emB"
    and "User_findOne enB emB wB = (Inr (Some u), wB')"
    and "bcrypt_compare enB pwB (hashedPassword u) = Inr False"
  shows "sign_in enA reqA wA = (Inl BadCredentialsError, wA') \<and>
         sign_in enB reqB wB = (Inl BadCredentialsError, wB') \<and>
         fst (sign_in enA reqA wA) = fst (sign_in enB reqB wB) \<and>
         users wA' = users wA \<and> users wB' = users wB"
proof -
  have a: "sign_in enA reqA wA = (Inl BadCredentialsError, wA')"
    using assms(1-3) by (simp add: sign_in_def promise_defs)
  have b: "sign_in enB reqB wB = (Inl BadCredentialsError, wB')"
    using assms(4-7) by (simp add: sign_in_def promise_defs)
  have "users wA' = users wA" "users wB' = users wB"
    using User_findOne_result [OF assms(3)] User_findOne_result [OF assms(6)] by simp_all
  with a b show ?thesis by simp
qed

theorem sign_in_failures_identical_witness:
  "User_findOne demo_env (Str ''nobody@y.com'') demo_world =
     (Inr None, demo_world\<lparr>ops := [OpFindOne (Str ''nobody@y.com'')]\<rparr>) \<and>
   User_findOne demo_env (Str ''x@y.com'') demo_world =
     (Inr (Some demo_user), demo_world\<lparr>ops := [OpFindOne (Str ''x@y.com'')]\<rparr>) \<and>
   bcrypt_compare demo_env (Str ''wrong'') (hashedPassword demo_user) = Inr False \<and>
   sign_in demo_env (demo_request ''credentials''
       [(''email'', Str ''nobody@y.com''), (''password'', Str ''secret'')] None) demo_world =
     (Inl BadCredentialsError, demo_world\<lparr>ops := [OpFindOne (Str ''nobody@y.com'')]\<rparr>) \<and>
   sign_in demo_env (demo_request ''credentials''
       [(''email'', Str ''x@y.com''), (''password'', Str ''wrong'')] None) demo_world =
     (Inl BadCredentialsError, demo_world\<lparr>ops := [OpFindOne (Str ''x@y.com'')]\<rparr>) \<and>
   fst (sign_in demo_env (demo_request ''credentials''
       [(''email'', Str ''nobody@y.com''), (''password'', Str ''secret'')] None) demo_world) =
   fst (sign_in demo_env (demo_request ''credentials''
       [(''email'', Str ''x@y.com''), (''password'', Str ''wrong'')] None) demo_world)"
proof -
  let ?a = "demo_request ''credentials''
       [(''email'', Str ''nobody@y.com''), (''password'', Str ''secret'')] None"
  let ?b = "demo_request ''credentials''
       [(''email'', Str ''x@y.com''), (''password'', Str ''wrong'')] None"
  have a1: "path (body ?a) [''credentials'', ''password''] = Inr (Str ''secret'')"
    and a2: "path (body ?a) [''credentials'', ''email''] = Inr (Str ''nobody@y.com'')"
    and b1: "path (body ?b) [''credentials'', ''password''] = Inr (Str ''wrong'')"
    and b2: "path (body ?b) [''credentials'', ''email''] = Inr (Str ''x@y.com'')"
    by (simp_all add: demo_request_def)
  have a3: "User_findOne demo_env (Str ''nobody@y.com'') demo_world =
     (Inr None, demo_world\<lparr>ops := [OpFindOne (Str ''nobody@y.com'')]\<rparr>)"
    and b3: "User_findOne demo_env (Str ''x@y.com'') demo_world =
     (Inr (Some demo_user), demo_world\<lparr>ops := [OpFindOne (Str ''x@y.com'')]\<rparr>)"
    by (simp_all add: run_defs)
  have b4: "bcrypt_compare demo_env (Str ''wrong'') (hashedPassword demo_user) = Inr False"
    by (simp add: demo_defs)
  from sign_in_failures_identical [OF a1 a2 a3 b1 b2 b3 b4] a3 b3 b4
  show ?thesis by simp
qed

text \<open>
  C4. A sign-in whose email resolves to a record and whose password matches the stored
  hash, the store accepting the save, makes the token the lowercase hex text of the 16
  bytes \<^verbatim>\<open>crypto.randomBytes\<close> delivers: 32 characters, the two of byte \<open>i\<close> being the
  digits of its high and of its low four bits, so that different bytes give different
  tokens. It overwrites the user's token with it, persists the record (a lookup by id
  afterwards returns the record with the new token) and responds with status 201 and
  the serialized user, token included.
\<close>

theorem sign_in_issues_token:
  assumes "path (body req) [''credentials'', ''password''] = Inr pw"
    and "path (body req) [''credentials'', ''email''] = Inr em"
    and "User_findOne en em w = (Inr (Some u), w1)"
    and "bcrypt_compare en pw (hashedPassword u) = Inr True"
    and "db_fault en (users w) (OpSave (u\<lparr>token := Str (sign_in_token en)\<rparr>)) = None"
  shows "(\<exists>r w'. sign_in en req w = (Inr r, w') \<and>
           status r = 201 \<and>
           payload r = Some (Obj [(''user'', toObject (u\<lparr>token := Str (sign_in_token en)\<rparr>))]) \<and>
           get_prop (toObject (u\<lparr>token := Str (sign_in_token en)\<rparr>)) ''token'' =
             Inr (Str (sign_in_token en)) \<and>
           users w' = map (\<lambda>v. if uid v = uid u then u\<lparr>token := Str (sign_in_token en)\<rparr> else v)
                        (users w) \<and>
           find (\<lambda>v. uid v = uid u) (users w') = Some (u\<lparr>token := Str (sign_in_token en)\<rparr>) \<and>
           ops w' = ops w @ [OpFindOne em, OpSave (u\<lparr>token := Str (sign_in_token en)\<rparr>)] \<and>
           sign_in_token en = toString_hex (randomBytes en 16) \<and>
           length (randomBytes en 16) = 16 \<and>
           length (sign_in_token en) = 32 \<and>
           set (sign_in_token en) \<subseteq> set ''0123456789abcdef'') \<and>
         (\<forall>i < 16.
            randomBytes en 16 ! i = crypto_random en i \<and>
            sign_in_token en ! (2 * i) =
              ''0123456789abcdef'' ! (unat (randomBytes en 16 ! i) div 16) \<and>
            sign_in_token en ! (2 * i + 1) =
              ''0123456789abcdef'' ! (unat (randomBytes en 16 ! i) mod 16)) \<and>
         (\<forall>en'. sign_in_token en' = sign_in_token en \<longrightarrow>
            randomBytes en' 16 = randomBytes en 16)"
proof -
  let ?u = "u\<lparr>token := Str (sign_in_token en)\<rparr>"
  let ?w = "w\<lparr>ops := ops w @ [OpFindOne em, OpSave ?u],
              users := map (\<lambda>v. if uid v = uid u then ?u else v) (users w)\<rparr>"
  from User_findOne_result [OF assms(3)]
  have found: "find (\<lambda>v. email v = em) (users w) = Some u"
    and w1: "w1 = w\<lparr>ops := ops w @ [OpFindOne em]\<rparr>" by simp_all
  have run: "sign_in en req w = (Inr (json_response 201 (Obj [(''user'', toObject ?u)])), ?w)"
    using assms(1,2,4,5) assms(3) [unfolded w1]
    by (simp add: sign_in_def promise_defs User_save_def db_call_def Let_def)
  have "u \<in> set (users w)" using find_in_set [OF found] by simp
  then have "\<exists>v \<in> set (users w). uid v = uid u" by blast
  then have stored: "find (\<lambda>v. uid v = uid u) (users ?w) = Some ?u"
    by (simp add: find_replaced)
  have tok: "length (sign_in_token en) = 32" "set (sign_in_token en) \<subseteq> set ''0123456789abcdef''"
    using toString_hex_lower
    by (simp_all add: sign_in_token_def toString_hex_length randomBytes_length)
  have response: "\<exists>r w'. sign_in en req w = (Inr r, w') \<and>
           status r = 201 \<and>
           payload r = Some (Obj [(''user'', toObject ?u)]) \<and>
           get_prop (toObject ?u) ''token'' = Inr (Str (sign_in_token en)) \<and>
           users w' = map (\<lambda>v. if uid v = uid u then ?u else v) (users w) \<and>
           find (\<lambda>v. uid v = uid u) (users w') = Some ?u \<and>
           ops w' = ops w @ [OpFindOne em, OpSave ?u] \<and>
           sign_in_token en = toString_hex (randomBytes en 16) \<and>
           length (randomBytes en 16) = 16 \<and>
           length (sign_in_token en) = 32 \<and>
           set (sign_in_token en) \<subseteq> set ''0123456789abcdef''"
    using run stored tok
    by (simp add: json_response_def toObject_def sign_in_token_def randomBytes_length)
  have digits: "randomBytes en 16 ! i = crypto_random en i \<and>
            sign_in_token en ! (2 * i) =
              ''0123456789abcdef'' ! (unat (randomBytes en 16 ! i) div 16) \<and>
            sign_in_token en ! (2 * i + 1) =
              ''0123456789abcdef'' ! (unat (randomBytes en 16 ! i) mod 16)" if "i < 16" for i
  proof -
    from that have "i < length (randomBytes en 16)" by (simp add: randomBytes_length)
    from toString_hex_digits [OF this] that show ?thesis
      by (simp add: sign_in_token_def randomBytes_def)
  qed
  have different: "randomBytes en' 16 = randomBytes en 16"
    if "sign_in_token en' = sign_in_token en" for en'
    using that by (simp add: sign_in_token_def toString_hex_inj)
  from response digits different show ?thesis by blast
qed

theorem sign_in_issues_token_witness:
  "User_findOne demo_env (Str ''x@y.com'') demo_world =
     (Inr (Some demo_user), demo_world\<lparr>ops := [OpFindOne (Str ''x@y.com'')]\<rparr>) \<and>
   bcrypt_compare demo_env (Str ''secret'') (hashedPassword demo_user) = Inr True \<and>
   db_fault demo_env (users demo_world)
     (OpSave (demo_user\<lparr>token := Str (sign_in_token demo_env)\<rparr>)) = None \<and>
   sign_in_token demo_env = ''0a2f54799ec3e80d32577ca1c6eb1035'' \<and>
   (\<exists>r w'. sign_in demo_env (demo_request ''credentials''
              [(''email'', Str ''x@y.com''), (''password'', Str ''secret'')] None) demo_world =
              (Inr r, w') \<and>
      status r = 201 \<and>
      payload r = Some (Obj [(''user'',
         toObject (demo_user\<lparr>token := Str ''0a2f54799ec3e80d32577ca1c6eb1035''\<rparr>))]) \<and>
      find (\<lambda>v. uid v = ''u1'') (users w') =
        Some (demo_user\<lparr>token := Str ''0a2f54799ec3e80d32577ca1c6eb1035''\<rparr>))"
proof -
  let ?r = "demo_request ''credentials''
              [(''email'', Str ''x@y.com''), (''password'', Str ''secret'')] None"
  have h1: "path (body ?r) [''credentials'', ''password''] = Inr (Str ''secret'')"
    and h2: "path (body ?r) [''credentials'', ''email''] = Inr (Str ''x@y.com'')"
    by (simp_all add: demo_request_def)
  have h3: "User_findOne demo_env (Str ''x@y.com'') demo_world =
     (Inr (Some demo_user), demo_world\<lparr>ops := [OpFindOne (Str ''x@y.com'')]\<rparr>)"
    by (simp add: run_defs)
  have h4: "bcrypt_compare demo_env (Str ''secret'') (hashedPassword demo_user) = Inr True"
    by (simp add: demo_defs)
  have h5: "db_fault demo_env (users demo_world)
     (OpSave (demo_user\<lparr>token := Str (sign_in_token demo_env)\<rparr>)) = None"
    by (simp add: demo_env_def)
  have u: "uid demo_user = ''u1''" by (simp add: demo_user_def)
  from sign_in_issues_token [OF h1 h2 h3 h4 h5] h3 h4 h5 demo_token u
  show ?thesis by auto
qed

section \<open>Change password\<close>

text \<open>
  C5, as the code has it. Where the handler reaches its guard (the record of the
  authenticated user is found, the body carries a \<open>passwords\<close> object and bcrypt
  returns a verdict on the old password): if the new password is missing or the empty
  string, or the old password does not match the stored hash, the handler fails with
  \<open>BadParamsError\<close>, the same error for both causes, and the collection is the one it
  found, the stored \<open>hashedPassword\<close> with it; the store was asked for the lookup and
  nothing else.
\<close>

theorem change_password_rejects:
  assumes "User_findById en (uid ru) w = (Inr (Some u), w1)"
    and "path (body req) [''passwords'', ''old''] = Inr old"
    and "path (body req) [''passwords'', ''new''] = Inr nw"
    and "bcrypt_compare en old (hashedPassword u) = Inr correct"
    and "\<not> truthy nw \<or> \<not> correct"
  shows "change_password en ru req w = (Inl BadParamsError, w1) \<and>
         users w1 = users w \<and> ops w1 = ops w @ [OpFindById (uid ru)]"
proof -
  have "change_password en ru req w = (Inl BadParamsError, w1)"
    using assms by (auto simp: change_password_def promise_defs bindE_def deref_def)
  moreover have "users w1 = users w" "ops w1 = ops w @ [OpFindById (uid ru)]"
    using User_findById_result [OF assms(1)] by simp_all
  ultimately show ?thesis by simp
qed

theorem change_password_rejects_witness:
  "User_findById demo_env (uid demo_user) demo_world =
     (Inr (Some demo_user), demo_world\<lparr>ops := [OpFindById ''u1'']\<rparr>) \<and>
   path (body (demo_request ''passwords'' [(''old'', Str ''secret''), (''new'', Str '''')]
     (Some ''t0''))) [''passwords'', ''old''] = Inr (Str ''secret'') \<and>
   path (body (demo_request ''passwords'' [(''old'', Str ''secret''), (''new'', Str '''')]
     (Some ''t0''))) [''passwords'', ''new''] = Inr (Str '''') \<and>
   bcrypt_compare demo_env (Str ''secret'') (hashedPassword demo_user) = Inr True \<and>
   \<not> truthy (Str '''') \<and>
   change_password demo_env demo_user
     (demo_request ''passwords'' [(''old'', Str ''secret''), (''new'', Str '''')] (Some ''t0''))
     demo_world =
     (Inl BadParamsError, demo_world\<lparr>ops := [OpFindById ''u1'']\<rparr>) \<and>
   users (demo_world\<lparr>ops := [OpFindById ''u1'']\<rparr>) = [demo_user] \<and>
   hashedPassword demo_user = Str ''$2b$secret''"
proof -
  let ?r = "demo_request ''passwords'' [(''old'', Str ''secret''), (''new'', Str '''')] (Some ''t0'')"
  have h1: "User_findById demo_env (uid demo_user) demo_world =
     (Inr (Some demo_user), demo_world\<lparr>ops := [OpFindById ''u1'']\<rparr>)"
    by (simp add: run_defs)
  have h2: "path (body ?r) [''passwords'', ''old''] = Inr (Str ''secret'')"
    and h3: "path (body ?r) [''passwords'', ''new''] = Inr (Str '''')"
    by (simp_all add: demo_request_def)
  have h4: "bcrypt_compare demo_env (Str ''secret'') (hashedPassword demo_user) = Inr True"
    by (simp add: demo_defs)
  have h5: "\<not> truthy (Str '''') \<or> \<not> True" by simp
  from change_password_rejects [OF h1 h2 h3 h4 h5] h1 h2 h3 h4
  show ?thesis by (simp add: demo_world_def demo_user_def)
qed

text \<open>
  Before the guard is reached the handler fails otherwise, since the old password is
  read and compared first: a body without a \<open>passwords\<close> object makes
  \<^verbatim>\<open>req.body.passwords.old\<close> throw, and an error of \<^verbatim>\<open>bcrypt.compare\<close> is passed on
  as it is.
\<close>

lemma change_password_without_passwords:
  assumes "User_findById en (uid ru) w = (Inr found, w1)"
    and "get_prop (body req) ''passwords'' = Inr Undefined"
  shows "change_password en ru req w = (Inl TypeError, w1)"
  using assms by (simp add: change_password_def promise_defs bindE_def)

lemma change_password_compare_error:
  assumes "User_findById en (uid ru) w = (Inr (Some u), w1)"
    and "path (body req) [''passwords'', ''old''] = Inr old"
    and "bcrypt_compare en old (hashedPassword u) = Inl e"
  shows "change_password en ru req w = (Inl e, w1)"
  using assms by (simp add: change_password_def promise_defs bindE_def deref_def del: path.simps)

text \<open>
  C5, as it is stated, fails at two requests of the signed-in artist whose new password
  is the empty string or missing. The body \<^verbatim>\<open>{ passwords: { new: "" } }\<close> has no old
  password, bcrypt refuses to compare \<^verbatim>\<open>undefined\<close> and its error is what the handler
  fails with; the body \<^verbatim>\<open>{}\<close> has no \<open>passwords\<close> object and the handler fails with
  a \<open>TypeError\<close>. Neither is \<open>BadParamsError\<close>.
\<close>

theorem change_password_rejects_counterexample:
  "path (body (demo_request ''passwords'' [(''new'', Str '''')] (Some ''t0'')))
     [''passwords'', ''new''] = Inr (Str '''') \<and>
   \<not> truthy (Str '''') \<and>
   change_password demo_env demo_user
     (demo_request ''passwords'' [(''new'', Str '''')] (Some ''t0'')) demo_world =
     (Inl (HashError ''data and hash must be strings''),
      demo_world\<lparr>ops := [OpFindById ''u1'']\<rparr>) \<and>
   fst (change_password demo_env demo_user
     (demo_request ''passwords'' [(''new'', Str '''')] (Some ''t0'')) demo_world) \<noteq>
     Inl BadParamsError \<and>
   get_prop (body \<lparr>body = Obj [], bearer = Some ''t0'', params_id = ''u1''\<rparr>) ''passwords'' =
     Inr Undefined \<and>
   change_password demo_env demo_user
     \<lparr>body = Obj [], bearer = Some ''t0'', params_id = ''u1''\<rparr> demo_world =
     (Inl TypeError, demo_world\<lparr>ops := [OpFindById ''u1'']\<rparr>) \<and>
   fst (change_password demo_env demo_user
     \<lparr>body = Obj [], bearer = Some ''t0'', params_id = ''u1''\<rparr> demo_world) \<noteq>
     Inl BadParamsError"
  by (simp add: change_password_def run_defs)

section \<open>Update profile\<close>

text \<open>
  C7. After a successful update-profile the stored record of the user holds, for each
  of \<open>name\<close>, \<open>location\<close> and \<open>biography\<close>, the input's value or, where the input
  omits it, the sentinel string, whatever the record held before: an omitted field is
  overwritten, not kept.
\<close>

theorem update_artist_overwrites:
  assumes "update_artist en ru req w = (Inr r, w')"
    and "path (body req) [''credentials'', ''name''] = Inr n"
    and "path (body req) [''credentials'', ''location''] = Inr l"
    and "path (body req) [''credentials'', ''biography''] = Inr b"
  shows "r = sendStatus 204 \<and>
         (\<exists>u. find (\<lambda>v. uid v = uid ru) (users w) = Some u \<and>
              find (\<lambda>v. uid v = uid ru) (users w') =
                Some (u\<lparr>name := or_else n (Str ''Anonymous''),
                        location := or_else l (Str ''No Location Given''),
                        biography := or_else b (Str ''No Biography Found'')\<rparr>)) \<and>
         (\<forall>v \<in> set (users w'). uid v = uid ru \<longrightarrow>
              (n = Undefined \<longrightarrow> name v = Str ''Anonymous'') \<and>
              (l = Undefined \<longrightarrow> location v = Str ''No Location Given'') \<and>
              (b = Undefined \<longrightarrow> biography v = Str ''No Biography Found''))"
proof -
  let ?f = "\<lambda>u::user. u\<lparr>name := or_else n (Str ''Anonymous''),
                        location := or_else l (Str ''No Location Given''),
                        biography := or_else b (Str ''No Biography Found'')\<rparr>"
  have cr: "update_credentials (body req) =
      Inr (or_else n (Str ''Anonymous''), or_else l (Str ''No Location Given''),
           or_else b (Str ''No Biography Found''))"
    using assms(2-4) by (simp add: update_credentials_def bindE_def del: path.simps)
  obtain u where found: "find (\<lambda>v. uid v = uid ru) (users w) = Some u"
    and r: "r = sendStatus 204"
    and w': "users w' = map (\<lambda>v. if uid v = uid (?f u) then ?f u else v) (users w)"
    using assms(1) cr
    by (auto simp: update_artist_def promise_defs deref_def User_findById_def User_save_def
          db_call_def Let_def split: sum.splits option.splits)
  have uid: "uid u = uid ru" using find_in_set [OF found] by simp
  have "\<exists>v \<in> set (users w). uid v = uid ru" using find_in_set [OF found] by blast
  then have stored: "find (\<lambda>v. uid v = uid ru) (users w') = Some (?f u)"
    unfolding w' using uid by (simp add: find_replaced)
  have "\<forall>v \<in> set (users w'). uid v = uid ru \<longrightarrow> v = ?f u"
    unfolding w' using uid by auto
  then have "\<forall>v \<in> set (users w'). uid v = uid ru \<longrightarrow>
              (n = Undefined \<longrightarrow> name v = Str ''Anonymous'') \<and>
              (l = Undefined \<longrightarrow> location v = Str ''No Location Given'') \<and>
              (b = Undefined \<longrightarrow> biography v = Str ''No Biography Found'')"
    by (auto simp: or_else_def)
  with r found stored show ?thesis by blast
qed

theorem update_artist_overwrites_witness:
  "update_artist demo_env demo_user
     (demo_request ''credentials'' [(''location'', Str ''Rome'')] (Some ''t0'')) demo_world =
     (Inr (sendStatus 204),
      \<lparr>users = [demo_user\<lparr>name := Str ''Anonymous'', location := Str ''Rome'',
                           biography := Str ''No Biography Found''\<rparr>],
       ops = [OpFindById ''u1'',
              OpSave (demo_user\<lparr>name := Str ''Anonymous'', location := Str ''Rome'',
                                biography := Str ''No Biography Found''\<rparr>)]\<rparr>) \<and>
   name demo_user = Str ''Alice'' \<and> biography demo_user = Str ''Painter'' \<and>
   find (\<lambda>v. uid v = uid demo_user) (users demo_world) = Some demo_user \<and>
   find (\<lambda>v. uid v = uid demo_user)
     [demo_user\<lparr>name := Str ''Anonymous'', location := Str ''Rome'',
                biography := Str ''No Biography Found''\<rparr>] =
     Some (demo_user\<lparr>name := Str ''Anonymous'', location := Str ''Rome'',
                     biography := Str ''No Biography Found''\<rparr>)"
proof -
  let ?r = "demo_request ''credentials'' [(''location'', Str ''Rome'')] (Some ''t0'')"
  let ?u = "demo_user\<lparr>name := Str ''Anonymous'', location := Str ''Rome'',
                           biography := Str ''No Biography Found''\<rparr>"
  let ?w = "\<lparr>users = [?u], ops = [OpFindById ''u1'', OpSave ?u]\<rparr>"
  have h1: "update_artist demo_env demo_user ?r demo_world = (Inr (sendStatus 204), ?w)"
    by (simp add: update_artist_def update_credentials_def run_defs)
  have h2: "path (body ?r) [''credentials'', ''name''] = Inr Undefined"
    and h3: "path (body ?r) [''credentials'', ''location''] = Inr (Str ''Rome'')"
    and h4: "path (body ?r) [''credentials'', ''biography''] = Inr Undefined"
    by (simp_all add: demo_request_def)
  have old: "name demo_user = Str ''Alice''" "biography demo_user = Str ''Painter''"
    by (simp_all add: demo_user_def)
  from update_artist_overwrites [OF h1 h2 h3 h4] obtain u where
    "find (\<lambda>v. uid v = uid demo_user) (users demo_world) = Some u"
    "find (\<lambda>v. uid v = uid demo_user) (users ?w) =
       Some (u\<lparr>name := or_else Undefined (Str ''Anonymous''),
               location := or_else (Str ''Rome'') (Str ''No Location Given''),
               biography := or_else Undefined (Str ''No Biography Found'')\<rparr>)"
    by blast
  then have c: "find (\<lambda>v. uid v = uid demo_user) (users demo_world) = Some demo_user \<and>
    find (\<lambda>v. uid v = uid demo_user) [?u] = Some ?u"
    by (simp add: demo_world_def or_else_def)
  from h1 old c show ?thesis by simp
qed

text \<open>
  C9. Update-profile is idempotent: for every user, input and world, the collection
  after running the handler twice with the same request is the collection after running
  it once, so the stored \<open>name\<close>, \<open>location\<close> and \<open>biography\<close> are the same.
\<close>

theorem update_artist_idempotent:
  "users (snd (update_artist en ru req (snd (update_artist en ru req w)))) =
   users (snd (update_artist en ru req w))"
proof -
  define step where "step us =
     (case db_fault en us (OpFindById (uid ru)) of
        Some e \<Rightarrow> us
      | None \<Rightarrow>
         (case update_credentials (body req) of
            Inl e \<Rightarrow> us
          | Inr (n, l, b) \<Rightarrow>
             (case find (\<lambda>v. uid v = uid ru) us of
                None \<Rightarrow> us
              | Some u \<Rightarrow>
                 (case db_fault en us (OpSave (u\<lparr>name := n, location := l, biography := b\<rparr>)) of
                    Some e \<Rightarrow> us
                  | None \<Rightarrow> map (\<lambda>v. if uid v = uid ru
                                      then u\<lparr>name := n, location := l, biography := b\<rparr>
                                      else v) us))))" for us
  have run: "users (snd (update_artist en ru req v)) = step (users v)" for v
  proof (cases "find (\<lambda>x. uid x = uid ru) (users v)")
    case None
    then show ?thesis
      by (auto simp: step_def update_artist_def promise_defs deref_def User_findById_def
            User_save_def db_call_def Let_def split: sum.splits option.splits prod.splits)
  next
    case (Some u)
    then have "uid u = uid ru" using find_in_set by fastforce
    with Some show ?thesis
      by (auto simp: step_def update_artist_def promise_defs deref_def User_findById_def
            User_save_def db_call_def Let_def split: sum.splits option.splits prod.splits)
  qed
  have idem: "step (step us) = step us" for us
  proof (cases "step us = us")
    case True
    then show ?thesis by simp
  next
    case False
    then obtain n l b u where cr: "update_credentials (body req) = Inr (n, l, b)"
      and found: "find (\<lambda>v. uid v = uid ru) us = Some u"
      and s: "step us = map (\<lambda>v. if uid v = uid ru
                                 then u\<lparr>name := n, location := l, biography := b\<rparr> else v) us"
      by (auto simp: step_def split: sum.splits option.splits prod.splits)
    let ?u = "u\<lparr>name := n, location := l, biography := b\<rparr>"
    have uid: "uid u = uid ru" using find_in_set [OF found] by simp
    have "\<exists>v \<in> set us. uid v = uid ru" using find_in_set [OF found] by blast
    then have found': "find (\<lambda>v. uid v = uid ru) (step us) = Some ?u"
      unfolding s using uid by (simp add: find_replaced)
    have again: "map (\<lambda>v. if uid v = uid ru then ?u else v) (step us) = step us"
      unfolding s using uid by simp
    have same: "?u\<lparr>name := n, location := l, biography := b\<rparr> = ?u" by simp
    have "step (step us) = map (\<lambda>v. if uid v = uid ru then ?u\<lparr>name := n, location := l, biography := b\<rparr> else v) (step us) \<or> step (step us) = step us"
      using cr found'
      by (simp add: step_def [of "step us"] split: option.splits)
    then show ?thesis
      unfolding same using again by auto
  qed
  show ?thesis by (simp add: run idem)
qed

theorem update_artist_idempotent_witness:
  "users (snd (update_artist demo_env demo_user
     (demo_request ''credentials'' [(''location'', Str ''Rome'')] (Some ''t0''))
     (snd (update_artist demo_env demo_user
        (demo_request ''credentials'' [(''location'', Str ''Rome'')] (Some ''t0''))
        demo_world)))) =
   [demo_user\<lparr>name := Str ''Anonymous'', location := Str ''Rome'',
               biography := Str ''No Biography Found''\<rparr>]"
proof -
  let ?r = "demo_request ''credentials'' [(''location'', Str ''Rome'')] (Some ''t0'')"
  have "users (snd (update_artist demo_env demo_user ?r demo_world)) =
     [demo_user\<lparr>name := Str ''Anonymous'', location := Str ''Rome'',
                 biography := Str ''No Biography Found''\<rparr>]"
    by (simp add: update_artist_def update_credentials_def run_defs)
  with update_artist_idempotent [of demo_env demo_user ?r demo_world]
  show ?thesis by simp
qed

section \<open>Sign-out\<close>



section \<open>A record that is gone\<close>

text \<open>
  C10. Change-password and update-profile use the record of the by-id lookup without
  checking it, where fetch-by-id sends a miss through \<^verbatim>\<open>handle404\<close>: when the lookup
  yields no record, the two handlers fail with a \<open>TypeError\<close> and fetch-by-id with the
  not-found error. So the two succeed only if the record of the authenticated user is
  still in the store.
\<close>

theorem missing_record_is_type_error:
  assumes "User_findById en i w = (Inr None, w1)"
    and "uid ru = i" and "params_id req = i"
  shows "change_password en ru req w = (Inl TypeError, w1) \<and>
         update_artist en ru req w = (Inl TypeError, w1) \<and>
         show_artist en req w = (Inl DocumentNotFoundError, w1)"
proof -
  have cp: "change_password en ru req w = (Inl TypeError, w1)"
    using assms(1,2)
    by (auto simp: change_password_def promise_defs bindE_def deref_def
             split: sum.splits dest: path_error get_prop_error)
  have ua: "update_artist en ru req w = (Inl TypeError, w1)"
    using assms(1,2)
    by (auto simp: update_artist_def promise_defs deref_def
             split: sum.splits prod.splits dest: update_credentials_error)
  have sa: "show_artist en req w = (Inl DocumentNotFoundError, w1)"
    using assms(1,3) by (simp add: show_artist_def promise_defs handle404_def)
  from cp ua sa show ?thesis by simp
qed

theorem missing_record_is_type_error_witness:
  "User_findById demo_env ''u1'' \<lparr>users = [], ops = []\<rparr> =
     (Inr None, \<lparr>users = [], ops = [OpFindById ''u1'']\<rparr>) \<and>
   uid demo_user = ''u1'' \<and>
   params_id (demo_request ''passwords'' [(''old'', Str ''secret''), (''new'', Str ''next'')]
     (Some ''t0'')) = ''u1'' \<and>
   change_password demo_env demo_user
     (demo_request ''passwords'' [(''old'', Str ''secret''), (''new'', Str ''next'')] (Some ''t0''))
     \<lparr>users = [], ops = []\<rparr> =
     (Inl TypeError, \<lparr>users = [], ops = [OpFindById ''u1'']\<rparr>) \<and>
   update_artist demo_env demo_user
     (demo_request ''passwords'' [(''old'', Str ''secret''), (''new'', Str ''next'')] (Some ''t0''))
     \<lparr>users = [], ops = []\<rparr> =
     (Inl TypeError, \<lparr>users = [], ops = [OpFindById ''u1'']\<rparr>) \<and>
   show_artist demo_env
     (demo_request ''passwords'' [(''old'', Str ''secret''), (''new'', Str ''next'')] (Some ''t0''))
     \<lparr>users = [], ops = []\<rparr> =
     (Inl DocumentNotFoundError, \<lparr>users = [], ops = [OpFindById ''u1'']\<rparr>)"
proof -
  let ?r = "demo_request ''passwords'' [(''old'', Str ''secret''), (''new'', Str ''next'')]
     (Some ''t0'')"
  have h1: "User_findById demo_env ''u1'' \<lparr>users = [], ops = []\<rparr> =
     (Inr None, \<lparr>users = [], ops = [OpFindById ''u1'']\<rparr>)"
    by (simp add: run_defs)
  have h2: "uid demo_user = ''u1''" by (simp add: demo_user_def)
  have h3: "params_id ?r = ''u1''" by (simp add: demo_request_def)
  from missing_record_is_type_error [OF h1 h2 h3] h1 h2 h3 show ?thesis by blast
qed

end
